theory Spec2Isabelle
  imports Main "HOL-Library.AList" "HOL-Library.Multiset"
begin

section \<open>The giveaway cog: data model\<close>

text \<open>
  The development embeds \<^verbatim>\<open>cogs/giveaway.py\<close>. Identifiers (message, channel and
  user ids) and counts are Python integers, hence \<open>int\<close>. A \<^verbatim>\<open>datetime\<close> is the number of
  microseconds since \<^verbatim>\<open>datetime.min\<close>. Each operation runs to its end before the next one
  starts: what other coroutines do while one waits for the platform is not modelled.
  The strings that are parsed are ASCII: on an ASCII string
  \<^verbatim>\<open>str.lower\<close> maps \<open>A\<close>..\<open>Z\<close> to \<open>a\<close>..\<open>z\<close>, and \<^verbatim>\<open>\d\<close> matches \<open>0\<close>..\<open>9\<close>; the decimal
  digits outside ASCII that Python's \<^verbatim>\<open>\d\<close> and \<^verbatim>\<open>int\<close> also accept are outside the model,
  as is the limit that recent interpreters put on the length of a digit string.
\<close>

datatype exn =
    NotFound        \<comment> \<open>\<^verbatim>\<open>discord.NotFound\<close>\<close>
  | HTTPException   \<comment> \<open>any other failure of a call to the platform\<close>
  | ValueError
  | TypeError
  | OverflowError
  | KeyError
  | AttributeError

text \<open>
  One entry of \<^verbatim>\<open>self.active_giveaways\<close>. The key \<^verbatim>\<open>'cancelled'\<close> exists only after a
  cancellation, where it is \<^verbatim>\<open>True\<close>; the field \<open>cancelled\<close> is \<open>False\<close> while the key is
  absent. Nothing in the source reads it.
\<close>

record giveaway =
  channel_id :: int
  message_id :: int
  host_id :: int
  prize :: string
  winner_count :: int
  end_time :: int
  ended :: bool
  cancelled :: bool

text \<open>
  A Python dictionary keeps insertion order: an association list, read with \<open>map_of\<close>,
  written with \<open>AList.update\<close> (in place for a key that exists, at the end for a new one)
  and \<open>AList.delete\<close>. The second component of the state is the random generator, as the
  sequence of raw values it will deliver.
\<close>

type_synonym store = "(int \<times> giveaway) list"

record state =
  active_giveaways :: store
  rng :: "nat list"

subsection \<open>The platform\<close>

record user =
  user_id :: int
  is_bot :: bool

record reaction =
  emoji :: string
  users :: "exn + user list"   \<comment> \<open>what iterating \<^verbatim>\<open>reaction.users()\<close> yields, or raises\<close>

type_synonym message = "reaction list"   \<comment> \<open>\<^verbatim>\<open>message.reactions\<close>\<close>

text \<open>
  What the calls to the platform answer while one operation runs. \<open>py_int\<close> is the builtin
  \<^verbatim>\<open>int(str)\<close>, \<open>None\<close> where it raises \<^verbatim>\<open>ValueError\<close>. \<open>timestamp\<close> is the POSIX time
  of a \<^verbatim>\<open>datetime\<close> without time zone, which the library computes from the local time of
  the host and which raises where that computation leaves the years 1 to 9999. It is
  asked for the end time of a new giveaway, which the argument of the command moves; the
  embeds of a settlement and of a cancellation show the timestamp of the current time,
  which is taken to exist.
\<close>

record world =
  get_channel :: "int \<Rightarrow> bool"                   \<comment> \<open>\<^verbatim>\<open>bot.get_channel(id)\<close> is not \<^verbatim>\<open>None\<close>\<close>
  fetch_message :: "int \<Rightarrow> int \<Rightarrow> exn + message"  \<comment> \<open>channel id, message id\<close>
  fetch_user :: "int \<Rightarrow> exn option"               \<comment> \<open>\<open>None\<close>: a user came back\<close>
  edit :: "int \<Rightarrow> exn option"                     \<comment> \<open>\<^verbatim>\<open>message.edit\<close>, by message id\<close>
  send :: "int \<Rightarrow> exn + int"                      \<comment> \<open>by channel id; the id of the new message\<close>
  add_reaction :: "int \<Rightarrow> exn option"             \<comment> \<open>by message id\<close>
  py_int :: "string \<Rightarrow> int option"
  timestamp :: "int \<Rightarrow> exn + int"                 \<comment> \<open>\<^verbatim>\<open>int(t.timestamp())\<close> on this host\<close>

record ctx =
  ctx_channel :: int
  ctx_author :: int
  ctx_guild :: "int option"

subsection \<open>What an operation emits\<close>

datatype reply =
    TimeNotPositive | InvalidTimeFormat
  | WinnersNotPositive | WinnersTooMany | WinnersNotNumber
  | GiveawayEmbed string int int int int   \<comment> \<open>prize, winners, host, end time, its timestamp\<close>
  | GiveawayCreated int
  | NoActiveGiveaway | GiveawayEnded
  | NoGiveawayFound | NotEndedYet | CannotFindChannel | CannotFindMessage
  | NoReactionsFound | NewWinners string "user list" | NoNewWinners string
  | NoActiveGiveaways | ActiveList "(int \<times> giveaway) list"
  | AlreadyEnded | GiveawayCancelled | MessageGone
  | Congratulations "user list" string | NoWinners string

datatype event =
    Sent int reply                  \<comment> \<open>\<^verbatim>\<open>ctx.send\<close> or \<^verbatim>\<open>channel.send\<close>: channel, content\<close>
  | Reacted int
  | EditedEnded int "user list"     \<comment> \<open>the embed \<^verbatim>\<open>GIVEAWAY ENDED\<close> with its winners\<close>
  | EditedCancelled int
  | LogChannelNotFound int int
  | LogMessageNotFound int int
  | LogEndError int exn

text \<open>The events emitted, in order, and the exception that left the coroutine, if any.\<close>

type_synonym outcome = "event list \<times> exn option"

definition say :: "world \<Rightarrow> int \<Rightarrow> reply \<Rightarrow> outcome" where
  "say w c r = (case send w c of Inl e \<Rightarrow> ([], Some e) | Inr i \<Rightarrow> ([Sent c r], None))"

section \<open>The time parser\<close>

definition lower_char :: "char \<Rightarrow> char" where
  "lower_char c =
     (case map_of (zip ''ABCDEFGHIJKLMNOPQRSTUVWXYZ'' ''abcdefghijklmnopqrstuvwxyz'') c of
        Some l \<Rightarrow> l
      | None \<Rightarrow> c)"

definition is_digit :: "char \<Rightarrow> bool" where
  "is_digit c = (c \<in> set ''0123456789'')"

definition is_unit_char :: "char \<Rightarrow> bool" where
  "is_unit_char c = (c \<in> set ''smhd'')"

definition int_of_digits :: "string \<Rightarrow> int" where
  "int_of_digits ds = foldl (\<lambda>acc c. 10 * acc + int (of_char c - (48::nat))) 0 ds"

text \<open>
  \<^verbatim>\<open>re.match(r'(\d+)([smhd])', s)\<close> and its two groups. The match starts at the first
  character and nothing anchors its end. \<^verbatim>\<open>\d+\<close> is greedy; a digit it gives back when
  the unit is missing is not a unit, so only the longest run of digits can match.
\<close>

definition re_match :: "string \<Rightarrow> (string \<times> char) option" where
  "re_match s =
     (let v = takeWhile is_digit s in
      if v = [] then None
      else (case dropWhile is_digit s of
              [] \<Rightarrow> None
            | u # rest \<Rightarrow> if is_unit_char u then Some (v, u) else None))"

text \<open>
  \<^verbatim>\<open>parse_time\<close>: \<open>Inl ValueError\<close> is the \<^verbatim>\<open>raise\<close>, \<open>Inr None\<close> the implicit
  \<^verbatim>\<open>return None\<close> below the last \<^verbatim>\<open>elif\<close>.
\<close>

definition parse_time :: "string \<Rightarrow> exn + int option" where
  "parse_time time_str =
     (case re_match (map lower_char time_str) of
        None \<Rightarrow> Inl ValueError
      | Some (v, u) \<Rightarrow>
          (let n = int_of_digits v in
           if u = CHR ''s'' then Inr (Some n)
           else if u = CHR ''m'' then Inr (Some (n * 60))
           else if u = CHR ''h'' then Inr (Some (n * 3600))
           else if u = CHR ''d'' then Inr (Some (n * 86400))
           else Inr None))"

text \<open>
  The pattern of the specification, \<^verbatim>\<open>^\d+[smhd]$\<close> with the unit in either case, on the
  whole string; and its multipliers.
\<close>

definition matches_duration :: "string \<Rightarrow> bool" where
  "matches_duration s =
     (s \<noteq> [] \<and> butlast s \<noteq> [] \<and> list_all is_digit (butlast s) \<and> is_unit_char (lower_char (last s)))"

definition multiplier :: "char \<Rightarrow> int" where
  "multiplier u =
     (if u = CHR ''s'' then 1 else if u = CHR ''m'' then 60
      else if u = CHR ''h'' then 3600 else 86400)"

text \<open>The inputs the source accepts: digits, then a unit, then anything.\<close>

definition matches_prefix :: "string \<Rightarrow> bool" where
  "matches_prefix s =
     (takeWhile is_digit s \<noteq> [] \<and>
      (case dropWhile is_digit s of [] \<Rightarrow> False | u # rest \<Rightarrow> is_unit_char (lower_char u)))"

section \<open>Sampling\<close>

text \<open>
  \<^verbatim>\<open>random.sample(population, k)\<close> raises \<^verbatim>\<open>ValueError\<close> unless \<open>0 \<le> k \<le> n\<close> and
  otherwise returns \<open>k\<close> elements taken at \<open>k\<close> different positions. The model is the
  library's selection from a pool: the \<open>i\<close>-th winner stands at position
  \<^verbatim>\<open>randbelow(n - i)\<close> of the pool, and the last element of the pool moves into the
  vacancy. \<open>draw\<close> takes the next raw value of the generator (\<open>0\<close> once the sequence is
  used up), reduced modulo the size of the pool.
\<close>

fun draw :: "nat list \<Rightarrow> nat \<times> nat list" where
  "draw [] = (0, [])"
| "draw (r # rs) = (r, rs)"

fun pool_sample :: "nat list \<Rightarrow> 'a list \<Rightarrow> nat \<Rightarrow> 'a list \<times> nat list" where
  "pool_sample rs pool 0 = ([], rs)"
| "pool_sample rs pool (Suc k) =
     (case draw rs of
        (r, rs1) \<Rightarrow>
          (case pool_sample rs1 (butlast (pool[r mod length pool := last pool])) k of
             (ws, rs2) \<Rightarrow> (pool ! (r mod length pool) # ws, rs2)))"

definition random_sample :: "nat list \<Rightarrow> 'a list \<Rightarrow> int \<Rightarrow> exn + ('a list \<times> nat list)" where
  "random_sample rs population k =
     (if k < 0 \<or> int (length population) < k then Inl ValueError
      else Inr (pool_sample rs population (nat k)))"

section \<open>Settlement\<close>

text \<open>The reaction emoji, U+1F389, as its UTF-8 bytes.\<close>

definition party :: string where
  "party = [CHR 0xF0, CHR 0x9F, CHR 0x8E, CHR 0x89]"

text \<open>The loop over \<^verbatim>\<open>message.reactions\<close> with its \<^verbatim>\<open>break\<close>: the first match.\<close>

definition find_reaction :: "message \<Rightarrow> reaction option" where
  "find_reaction m = List.find (\<lambda>r. emoji r = party) m"

text \<open>The \<^verbatim>\<open>async for\<close> over \<^verbatim>\<open>reaction.users()\<close> that leaves the bots out.\<close>

definition collect_users :: "reaction \<Rightarrow> exn + user list" where
  "collect_users r =
     (case users r of Inl e \<Rightarrow> Inl e | Inr us \<Rightarrow> Inr (filter (\<lambda>u. \<not> is_bot u) us))"

text \<open>
  The two lines under \<^verbatim>\<open># Select winners\<close>, the same in \<^verbatim>\<open>end_giveaway\<close> and in
  \<^verbatim>\<open>reroll_giveaway\<close>.
\<close>

definition pick_winners :: "int \<Rightarrow> user list \<Rightarrow> nat list \<Rightarrow> exn + (user list \<times> nat list)" where
  "pick_winners n us rs =
     (let k = min n (int (length us)) in
      if 0 < k then random_sample rs us k else Inr ([], rs))"

text \<open>The entrants of a fetched message: nobody when the reaction is not on it.\<close>

definition entrants :: "message \<Rightarrow> exn + user list" where
  "entrants m = (case find_reaction m of None \<Rightarrow> Inr [] | Some r \<Rightarrow> collect_users r)"

text \<open>Lines 190 to 209 of \<^verbatim>\<open>end_giveaway\<close>: from the fetched message to the winners.\<close>

definition select_winners :: "giveaway \<Rightarrow> message \<Rightarrow> nat list \<Rightarrow> exn + (user list \<times> nat list)" where
  "select_winners giveaway m rs =
     (case find_reaction m of
        None \<Rightarrow> Inr ([], rs)
      | Some r \<Rightarrow>
          (case collect_users r of
             Inl e \<Rightarrow> Inl e
           | Inr us \<Rightarrow> pick_winners (winner_count giveaway) us rs))"

text \<open>Lines 211 to 242: the host is fetched, the message edited, the result sent.\<close>

definition announce :: "world \<Rightarrow> giveaway \<Rightarrow> user list \<Rightarrow> outcome" where
  "announce w giveaway winners =
     (case fetch_user w (host_id giveaway) of
        Some e \<Rightarrow> ([], Some e)
      | None \<Rightarrow>
          (case edit w (message_id giveaway) of
             Some e \<Rightarrow> ([], Some e)
           | None \<Rightarrow>
               (case say w (channel_id giveaway)
                       (if winners \<noteq> [] then Congratulations winners (prize giveaway)
                        else NoWinners (prize giveaway)) of
                  (evs, x) \<Rightarrow> (EditedEnded (message_id giveaway) winners # evs, x))))"

text \<open>
  \<^verbatim>\<open>end_giveaway\<close>. The assignment \<^verbatim>\<open>giveaway['ended'] = True\<close> writes into the
  dictionary that the store holds, before the channel is looked up.
\<close>

definition end_giveaway :: "world \<Rightarrow> int \<Rightarrow> state \<Rightarrow> outcome \<times> state" where
  "end_giveaway w giveaway_id s =
     (case map_of (active_giveaways s) giveaway_id of
        None \<Rightarrow> (([], None), s)
      | Some g \<Rightarrow>
          (let giveaway = g\<lparr>ended := True\<rparr>;
               s1 = s\<lparr>active_giveaways := AList.update giveaway_id giveaway (active_giveaways s)\<rparr>
           in if \<not> get_channel w (channel_id giveaway)
              then (([LogChannelNotFound (channel_id giveaway) giveaway_id], None), s1)
              else (case fetch_message w (channel_id giveaway) (message_id giveaway) of
                      Inl e \<Rightarrow>
                        if e = NotFound
                        then (([LogMessageNotFound (message_id giveaway) giveaway_id], None), s1)
                        else (([], Some e), s1)
                    | Inr m \<Rightarrow>
                        (case select_winners giveaway m (rng s1) of
                           Inl e \<Rightarrow> (([], Some e), s1)
                         | Inr (winners, rs) \<Rightarrow>
                             (announce w giveaway winners, s1\<lparr>rng := rs\<rparr>)))))"

section \<open>The reconciliation tick\<close>

text \<open>
  \<^verbatim>\<open>check_giveaways\<close>: the loop over a copy of the keys. The only test is on the end
  time; an exception of \<^verbatim>\<open>end_giveaway\<close> is logged and the loop goes on.
\<close>

fun check_loop :: "world \<Rightarrow> int \<Rightarrow> int list \<Rightarrow> state \<Rightarrow> outcome \<times> state" where
  "check_loop w now [] s = (([], None), s)"
| "check_loop w now (giveaway_id # ids) s =
     (case map_of (active_giveaways s) giveaway_id of
        None \<Rightarrow> (([], Some KeyError), s)
      | Some giveaway \<Rightarrow>
          if end_time giveaway \<le> now
          then (case end_giveaway w giveaway_id s of
                  ((evs, x), s1) \<Rightarrow>
                    (case check_loop w now ids s1 of
                       ((evs2, x2), s2) \<Rightarrow>
                         ((evs @ (case x of None \<Rightarrow> [] | Some e \<Rightarrow> [LogEndError giveaway_id e])
                               @ evs2, x2), s2)))
          else check_loop w now ids s)"

definition check_giveaways :: "world \<Rightarrow> int \<Rightarrow> state \<Rightarrow> outcome \<times> state" where
  "check_giveaways w now s = check_loop w now (map fst (active_giveaways s)) s"

section \<open>The commands\<close>

subsection \<open>create\<close>

text \<open>
  \<^verbatim>\<open>datetime.now() + timedelta(seconds=seconds)\<close>. A \<^verbatim>\<open>timedelta\<close> holds at most
  999999999 days and a \<^verbatim>\<open>datetime\<close> ends with the year 9999; beyond either the
  expression raises \<^verbatim>\<open>OverflowError\<close>. The embed shows \<^verbatim>\<open>int(end_time.timestamp())\<close>, which is
  computed outside both \<^verbatim>\<open>try\<close> blocks and before anything is sent: an exception there
  leaves the command. The rest of the rendering is left out; the content of the embed is
  carried by \<open>GiveawayEmbed\<close>.
\<close>

definition datetime_max :: int where
  "datetime_max = 315537897599999999"

definition add_seconds :: "int \<Rightarrow> int \<Rightarrow> exn + int" where
  "add_seconds now seconds =
     (if 999999999 < \<bar>seconds div 86400\<bar> then Inl OverflowError
      else if now + seconds * 1000000 < 0 \<or> datetime_max < now + seconds * 1000000
      then Inl OverflowError
      else Inr (now + seconds * 1000000))"

definition create_giveaway ::
  "world \<Rightarrow> int \<Rightarrow> ctx \<Rightarrow> string \<Rightarrow> string \<Rightarrow> string \<Rightarrow> state \<Rightarrow> outcome \<times> state" where
  "create_giveaway w now c time_str winners_str prize_str s =
     (case parse_time time_str of
        Inl e \<Rightarrow>
          if e = ValueError then (say w (ctx_channel c) InvalidTimeFormat, s)
          else (([], Some e), s)
      | Inr None \<Rightarrow> (([], Some TypeError), s)
      | Inr (Some seconds) \<Rightarrow>
          if seconds \<le> 0 then (say w (ctx_channel c) TimeNotPositive, s)
          else (case py_int w winners_str of
                  None \<Rightarrow> (say w (ctx_channel c) WinnersNotNumber, s)
                | Some winners \<Rightarrow>
                    if winners \<le> 0 then (say w (ctx_channel c) WinnersNotPositive, s)
                    else if 20 < winners then (say w (ctx_channel c) WinnersTooMany, s)
                    else (case add_seconds now seconds of
                            Inl e \<Rightarrow> (([], Some e), s)
                          | Inr end_t \<Rightarrow>
                              (case timestamp w end_t of
                                 Inl e \<Rightarrow> (([], Some e), s)
                               | Inr ts \<Rightarrow>
                                   (case send w (ctx_channel c) of
                                      Inl e \<Rightarrow> (([], Some e), s)
                                    | Inr mid \<Rightarrow>
                                        (case add_reaction w mid of
                                           Some e \<Rightarrow>
                                             (([Sent (ctx_channel c)
                                                  (GiveawayEmbed prize_str winners (ctx_author c)
                                                     end_t ts)],
                                               Some e), s)
                                         | None \<Rightarrow>
                                             (case say w (ctx_channel c) (GiveawayCreated mid) of
                                                (evs, x) \<Rightarrow>
                                                  ((Sent (ctx_channel c)
                                                      (GiveawayEmbed prize_str winners
                                                         (ctx_author c) end_t ts)
                                                    # Reacted mid # evs, x),
                                                   s\<lparr>active_giveaways :=
                                                       AList.update mid
                                                         \<lparr>channel_id = ctx_channel c,
                                                          message_id = mid,
                                                          host_id = ctx_author c,
                                                          prize = prize_str,
                                                          winner_count = winners,
                                                          end_time = end_t,
                                                          ended = False,
                                                          cancelled = False\<rparr>
                                                         (active_giveaways s)\<rparr>))))))))"

subsection \<open>end\<close>

definition end_giveaway_command :: "world \<Rightarrow> ctx \<Rightarrow> int \<Rightarrow> state \<Rightarrow> outcome \<times> state" where
  "end_giveaway_command w c mid s =
     (if map_of (active_giveaways s) mid = None then (say w (ctx_channel c) NoActiveGiveaway, s)
      else (case end_giveaway w mid s of
              ((evs, Some e), s1) \<Rightarrow> ((evs, Some e), s1)
            | ((evs, None), s1) \<Rightarrow>
                (case say w (ctx_channel c) GiveawayEnded of
                   (evs2, x) \<Rightarrow> ((evs @ evs2, x), s1))))"

subsection \<open>reroll\<close>

text \<open>
  The optional argument: \<^verbatim>\<open>None\<close> and the empty string are both false in
  \<^verbatim>\<open>if winners_str:\<close>. \<open>Inl\<close> is the message of an early return.
\<close>

definition reroll_count :: "world \<Rightarrow> giveaway \<Rightarrow> string option \<Rightarrow> reply + int" where
  "reroll_count w giveaway winners_str =
     (case winners_str of
        None \<Rightarrow> Inr (winner_count giveaway)
      | Some str \<Rightarrow>
          if str = [] then Inr (winner_count giveaway)
          else (case py_int w str of
                  None \<Rightarrow> Inl WinnersNotNumber
                | Some n \<Rightarrow>
                    if n \<le> 0 then Inl WinnersNotPositive
                    else if 20 < n then Inl WinnersTooMany
                    else Inr n))"

definition reroll_giveaway ::
  "world \<Rightarrow> ctx \<Rightarrow> int \<Rightarrow> string option \<Rightarrow> state \<Rightarrow> outcome \<times> state" where
  "reroll_giveaway w c mid winners_str s =
     (case map_of (active_giveaways s) mid of
        None \<Rightarrow> (say w (ctx_channel c) NoGiveawayFound, s)
      | Some giveaway \<Rightarrow>
          if \<not> ended giveaway then (say w (ctx_channel c) NotEndedYet, s)
          else (case reroll_count w giveaway winners_str of
                  Inl r \<Rightarrow> (say w (ctx_channel c) r, s)
                | Inr n \<Rightarrow>
                    if \<not> get_channel w (channel_id giveaway)
                    then (say w (ctx_channel c) CannotFindChannel, s)
                    else (case fetch_message w (channel_id giveaway) (message_id giveaway) of
                            Inl e \<Rightarrow>
                              if e = NotFound then (say w (ctx_channel c) CannotFindMessage, s)
                              else (([], Some e), s)
                          | Inr m \<Rightarrow>
                              (case find_reaction m of
                                 None \<Rightarrow> (say w (ctx_channel c) NoReactionsFound, s)
                               | Some r \<Rightarrow>
                                   (case collect_users r of
                                      Inl e \<Rightarrow> (([], Some e), s)
                                    | Inr us \<Rightarrow>
                                        (case pick_winners n us (rng s) of
                                           Inl e \<Rightarrow> (([], Some e), s)
                                         | Inr (winners, rs) \<Rightarrow>
                                             (say w (ctx_channel c)
                                                (if winners \<noteq> []
                                                 then NewWinners (prize giveaway) winners
                                                 else NoNewWinners (prize giveaway)),
                                              s\<lparr>rng := rs\<rparr>)))))))"

subsection \<open>list\<close>

text \<open>
  The entries shown are those of the filtered dictionary; how the time left is printed
  is left out. \<^verbatim>\<open>ctx.guild\<close> is \<^verbatim>\<open>None\<close> outside a guild, where \<^verbatim>\<open>ctx.guild.id\<close>
  raises on the first entry.
\<close>

definition list_giveaways :: "world \<Rightarrow> ctx \<Rightarrow> state \<Rightarrow> outcome \<times> state" where
  "list_giveaways w c s =
     (let active = filter (\<lambda>(gid, g). \<not> ended g) (active_giveaways s) in
      if active = [] then (say w (ctx_channel c) NoActiveGiveaways, s)
      else if ctx_guild c = None then (([], Some AttributeError), s)
      else (say w (ctx_channel c) (ActiveList active), s))"

subsection \<open>cancel\<close>

text \<open>The body of the \<^verbatim>\<open>try\<close> of \<^verbatim>\<open>cancel_giveaway\<close>.\<close>

definition cancel_body :: "world \<Rightarrow> ctx \<Rightarrow> int \<Rightarrow> giveaway \<Rightarrow> state \<Rightarrow> outcome \<times> state" where
  "cancel_body w c mid giveaway s =
     (case fetch_message w (channel_id giveaway) (message_id giveaway) of
        Inl e \<Rightarrow> (([], Some e), s)
      | Inr m \<Rightarrow>
          (case fetch_user w (host_id giveaway) of
             Some e \<Rightarrow> (([], Some e), s)
           | None \<Rightarrow>
               (case edit w (message_id giveaway) of
                  Some e \<Rightarrow> (([], Some e), s)
                | None \<Rightarrow>
                    (case say w (ctx_channel c) GiveawayCancelled of
                       (evs, x) \<Rightarrow>
                         ((EditedCancelled (message_id giveaway) # evs, x),
                          s\<lparr>active_giveaways :=
                              AList.update mid (giveaway\<lparr>ended := True, cancelled := True\<rparr>)
                                (active_giveaways s)\<rparr>)))))"

text \<open>
  \<^verbatim>\<open>cancel_giveaway\<close>. The handler of \<^verbatim>\<open>discord.NotFound\<close> answers first and deletes
  the entry after; \<^verbatim>\<open>del\<close> raises \<^verbatim>\<open>KeyError\<close> on a key that is not there.
\<close>

definition cancel_giveaway :: "world \<Rightarrow> ctx \<Rightarrow> int \<Rightarrow> state \<Rightarrow> outcome \<times> state" where
  "cancel_giveaway w c mid s =
     (case map_of (active_giveaways s) mid of
        None \<Rightarrow> (say w (ctx_channel c) NoGiveawayFound, s)
      | Some giveaway \<Rightarrow>
          if ended giveaway then (say w (ctx_channel c) AlreadyEnded, s)
          else if \<not> get_channel w (channel_id giveaway)
          then (say w (ctx_channel c) CannotFindChannel, s)
          else (case cancel_body w c mid giveaway s of
                  ((evs, x), s1) \<Rightarrow>
                    if x = Some NotFound
                    then (case send w (ctx_channel c) of
                            Inl e \<Rightarrow> ((evs, Some e), s1)
                          | Inr i \<Rightarrow>
                              if map_of (active_giveaways s1) mid = None
                              then ((evs @ [Sent (ctx_channel c) MessageGone], Some KeyError), s1)
                              else ((evs @ [Sent (ctx_channel c) MessageGone], None),
                                    s1\<lparr>active_giveaways := AList.delete mid (active_giveaways s1)\<rparr>))
                    else ((evs, x), s1)))"

section \<open>Stores that the cog can reach\<close>

text \<open>
  The cog starts with an empty dictionary; every command and every tick runs against
  some answers of the platform.
\<close>

inductive reachable :: "state \<Rightarrow> bool" where
  start: "reachable \<lparr>active_giveaways = [], rng = rs\<rparr>"
| create: "reachable s \<Longrightarrow> reachable (snd (create_giveaway w now c time_str winners_str p s))"
| end_command: "reachable s \<Longrightarrow> reachable (snd (end_giveaway_command w c mid s))"
| reroll: "reachable s \<Longrightarrow> reachable (snd (reroll_giveaway w c mid winners_str s))"
| listing: "reachable s \<Longrightarrow> reachable (snd (list_giveaways w c s))"
| cancel: "reachable s \<Longrightarrow> reachable (snd (cancel_giveaway w c mid s))"
| tick: "reachable s \<Longrightarrow> reachable (snd (check_giveaways w now s))"

text \<open>Every key is the \<^verbatim>\<open>message_id\<close> of its entry.\<close>

definition key_consistent :: "store \<Rightarrow> bool" where
  "key_consistent al = list_all (\<lambda>(k, g). message_id g = k) al"

text \<open>An entry marked cancelled is marked ended.\<close>

definition cancelled_ended :: "store \<Rightarrow> bool" where
  "cancelled_ended al = list_all (\<lambda>(k, g). cancelled g \<longrightarrow> ended g) al"

text \<open>The replies that reject an argument of \<^verbatim>\<open>create\<close>.\<close>

definition invalid_argument :: "reply \<Rightarrow> bool" where
  "invalid_argument r =
     (r \<in> {InvalidTimeFormat, TimeNotPositive, WinnersNotNumber, WinnersNotPositive,
            WinnersTooMany})"

section \<open>A concrete scene\<close>

text \<open>
  One channel, one giveaway message with two human entrants and a bot among its
  reactions, and a platform on which every call succeeds. \<open>dec_int\<close> reads a string of
  digits as \<^verbatim>\<open>int\<close> does. The host keeps UTC: \<open>utc_timestamp\<close> counts the seconds since
  1970, and raises in the first day of the year 1, where the library looks one day back.
  The clock of the scene stands at noon of 4 November 2026, which is 63929390400000000
  microseconds after \<^verbatim>\<open>datetime.min\<close>.
\<close>

definition alice :: user where
  "alice = \<lparr>user_id = 101, is_bot = False\<rparr>"

definition bob :: user where
  "bob = \<lparr>user_id = 102, is_bot = False\<rparr>"

definition robot :: user where
  "robot = \<lparr>user_id = 900, is_bot = True\<rparr>"

definition demo_message :: message where
  "demo_message =
     [\<lparr>emoji = ''+1'', users = Inr [bob]\<rparr>,
      \<lparr>emoji = party, users = Inr [alice, robot, bob]\<rparr>]"

definition dec_int :: "string \<Rightarrow> int option" where
  "dec_int str = (if str \<noteq> [] \<and> list_all is_digit str then Some (int_of_digits str) else None)"

definition utc_timestamp :: "int \<Rightarrow> exn + int" where
  "utc_timestamp t =
     (if t div 1000000 < 86400 then Inl ValueError else Inr (t div 1000000 - 62135596800))"

definition demo_world :: world where
  "demo_world =
     \<lparr>get_channel = (\<lambda>ch. ch = 7),
      fetch_message =
        (\<lambda>ch mid. if ch = 7 \<and> (mid = 41 \<or> mid = 42) then Inr demo_message else Inl NotFound),
      fetch_user = (\<lambda>uid. None),
      edit = (\<lambda>mid. None),
      send = (\<lambda>ch. Inr 42),
      add_reaction = (\<lambda>mid. None),
      py_int = dec_int,
      timestamp = utc_timestamp\<rparr>"

definition demo_giveaway :: giveaway where
  "demo_giveaway =
     \<lparr>channel_id = 7, message_id = 42, host_id = 1, prize = ''Nitro'', winner_count = 1,
      end_time = 63929390460000000, ended = False, cancelled = False\<rparr>"

definition demo_ctx :: ctx where
  "demo_ctx = \<lparr>ctx_channel = 7, ctx_author = 1, ctx_guild = Some 5\<rparr>"

definition demo_state :: state where
  "demo_state = \<lparr>active_giveaways = [(42, demo_giveaway)], rng = [0]\<rparr>"

text \<open>
  A history: a giveaway of three books is created as message 41 and one of a Nitro as
  message 42, then the first is cancelled.
\<close>

definition demo_history :: state where
  "demo_history =
     snd (cancel_giveaway demo_world demo_ctx 41
       (snd (create_giveaway demo_world 63929390400000000 demo_ctx ''60s'' ''1'' ''Nitro''
         (snd (create_giveaway (demo_world\<lparr>send := (\<lambda>ch. Inr 41)\<rparr>) 63929390400000000 demo_ctx
                 ''2h'' ''3'' ''Book''
           \<lparr>active_giveaways = [], rng = [0, 1, 0]\<rparr>)))))"

section \<open>Properties of the time parser\<close>

lemma lower_char_cases:
  "lower_char c = c \<or>
   (c \<in> set ''ABCDEFGHIJKLMNOPQRSTUVWXYZ'' \<and> lower_char c \<in> set ''abcdefghijklmnopqrstuvwxyz'')"
proof (cases "map_of (zip ''ABCDEFGHIJKLMNOPQRSTUVWXYZ'' ''abcdefghijklmnopqrstuvwxyz'') c")
  case None
  then show ?thesis by (simp add: lower_char_def)
next
  case (Some l)
  then have "(c, l) \<in> set (zip ''ABCDEFGHIJKLMNOPQRSTUVWXYZ'' ''abcdefghijklmnopqrstuvwxyz'')"
    by (rule map_of_SomeD)
  then have "c \<in> set ''ABCDEFGHIJKLMNOPQRSTUVWXYZ''" and "l \<in> set ''abcdefghijklmnopqrstuvwxyz''"
    by (rule set_zip_leftD, rule set_zip_rightD)
  with Some show ?thesis by (simp add: lower_char_def)
qed

lemma upper_not_digit: "c \<in> set ''ABCDEFGHIJKLMNOPQRSTUVWXYZ'' \<Longrightarrow> \<not> is_digit c"
  unfolding is_digit_def by auto

lemma lower_not_digit: "c \<in> set ''abcdefghijklmnopqrstuvwxyz'' \<Longrightarrow> \<not> is_digit c"
  unfolding is_digit_def by auto

lemma is_digit_lower_char: "is_digit (lower_char c) = is_digit c"
  using lower_char_cases[of c] upper_not_digit[of c] lower_not_digit[of "lower_char c"]
  by metis

lemma lower_char_digit: "is_digit c \<Longrightarrow> lower_char c = c"
  using lower_char_cases[of c] upper_not_digit[of c] by metis

lemma is_unit_not_digit: "is_unit_char c \<Longrightarrow> \<not> is_digit c"
  by (auto simp: is_digit_def is_unit_char_def)

lemma takeWhile_lower: "takeWhile is_digit (map lower_char s) = takeWhile is_digit s"
  by (induction s) (auto simp: is_digit_lower_char lower_char_digit)

lemma dropWhile_lower: "dropWhile is_digit (map lower_char s) = map lower_char (dropWhile is_digit s)"
  by (induction s) (auto simp: is_digit_lower_char)

lemma re_match_lower:
  "re_match (map lower_char s) =
     (if matches_prefix s
      then Some (takeWhile is_digit s, lower_char (hd (dropWhile is_digit s))) else None)"
proof (cases "dropWhile is_digit s")
  case Nil
  then show ?thesis
    by (simp add: re_match_def matches_prefix_def takeWhile_lower dropWhile_lower Let_def
             del: dropWhile_eq_Nil_conv)
next
  case (Cons u rest)
  then show ?thesis
    by (simp add: re_match_def matches_prefix_def takeWhile_lower dropWhile_lower Let_def
             del: dropWhile_eq_Nil_conv)
qed

lemma parse_time_prefix:
  "parse_time s =
     (if matches_prefix s
      then Inr (Some (int_of_digits (takeWhile is_digit s) *
                      multiplier (lower_char (hd (dropWhile is_digit s)))))
      else Inl ValueError)"
proof (cases "matches_prefix s")
  case False
  then show ?thesis by (simp add: parse_time_def re_match_lower)
next
  case True
  then have "is_unit_char (lower_char (hd (dropWhile is_digit s)))"
    by (auto simp: matches_prefix_def split: list.splits)
  then show ?thesis using True
    by (auto simp: parse_time_def re_match_lower multiplier_def is_unit_char_def)
qed

lemma matches_duration_split:
  assumes "matches_duration s"
  shows "takeWhile is_digit s = butlast s" and "dropWhile is_digit s = [last s]"
proof -
  from assms have s: "s = butlast s @ [last s]" and d: "\<forall>c\<in>set (butlast s). is_digit c"
    and u: "\<not> is_digit (last s)"
    using is_unit_not_digit[of "lower_char (last s)"]
    by (auto simp: matches_duration_def list_all_iff is_digit_lower_char)
  have "takeWhile is_digit (butlast s @ [last s]) = butlast s"
    using d u by (simp add: takeWhile_append2)
  then show "takeWhile is_digit s = butlast s" using s by simp
  have "dropWhile is_digit (butlast s @ [last s]) = [last s]"
    using d u by (simp add: dropWhile_append2)
  then show "dropWhile is_digit s = [last s]" using s by simp
qed

lemma parse_time_full:
  "matches_duration s \<Longrightarrow>
   parse_time s = Inr (Some (int_of_digits (butlast s) * multiplier (lower_char (last s))))"
  using matches_duration_split[of s]
  by (simp add: parse_time_prefix matches_prefix_def matches_duration_def)

lemma parse_time_never_None: "parse_time s \<noteq> Inr None"
  by (simp add: parse_time_prefix)

text \<open>
  C3. For every input matching \<^verbatim>\<open>^\d+[smhd]$\<close>, \<^verbatim>\<open>parse_time\<close> returns the number times
  1, 60, 3600 or 86400; for every input not matching it, \<^verbatim>\<open>parse_time\<close> fails. The first
  half is \<open>parse_time_full\<close>. The second half fails on the code: \<^verbatim>\<open>re.match\<close> anchors the
  pattern at the start only, so \<^verbatim>\<open>10sx\<close>, which does not match, is read as ten seconds, and
  \<^verbatim>\<open>1h30m\<close> as one hour.
\<close>

theorem parse_time_accepts_trailing_text:
  "\<not> matches_duration ''10sx'' \<and> parse_time ''10sx'' = Inr (Some 10) \<and>
   \<not> matches_duration ''1h30m'' \<and> parse_time ''1h30m'' = Inr (Some 3600)"
  by (simp add: matches_duration_def parse_time_def re_match_def is_digit_def is_unit_char_def
        lower_char_def int_of_digits_def)

section \<open>Properties of the sampling\<close>

lemma mset_butlast_last: "xs \<noteq> [] \<Longrightarrow> add_mset (last xs) (mset (butlast xs)) = mset xs"
  by (induction xs) auto

lemma mset_swap_out:
  assumes "j < length pool"
  shows "mset (butlast (pool[j := last pool])) = mset pool - {#pool ! j#}"
proof -
  from assms have ne: "pool \<noteq> []" by auto
  let ?q = "pool[j := last pool]"
  have neq: "?q \<noteq> []" using ne by simp
  have lastq: "last ?q = last pool"
    using assms ne by (cases "j = length pool - 1") (simp_all add: last_conv_nth last_list_update)
  have "mset ?q = add_mset (last pool) (mset pool - {#pool ! j#})"
    using assms by (simp add: mset_update)
  moreover have "mset ?q = add_mset (last ?q) (mset (butlast ?q))"
    using neq by (simp add: mset_butlast_last)
  ultimately show ?thesis using lastq by simp
qed

lemma pool_sample_length: "length (fst (pool_sample rs pool k)) = k"
proof (induction k arbitrary: rs pool)
  case 0
  then show ?case by simp
next
  case (Suc k)
  obtain r rs1 where d: "draw rs = (r, rs1)" by (cases "draw rs")
  obtain ws rs2 where p: "pool_sample rs1 (butlast (pool[r mod length pool := last pool])) k = (ws, rs2)"
    by (cases "pool_sample rs1 (butlast (pool[r mod length pool := last pool])) k")
  from Suc.IH[of rs1 "butlast (pool[r mod length pool := last pool])"] p have "length ws = k" by simp
  then show ?case using d p by simp
qed



lemma sub_mset_distinct:
  assumes "mset ws \<subseteq># mset pool" and "distinct pool"
  shows "distinct ws"
proof -
  have "count (mset ws) a = (if a \<in> set ws then 1 else 0)" for a
  proof (cases "a \<in> set ws")
    case True
    then have "1 \<le> count (mset ws) a" by (simp add: Suc_le_eq)
    moreover have "count (mset ws) a \<le> count (mset pool) a"
      using assms(1) by (rule mset_subset_eq_count)
    moreover have "count (mset pool) a \<le> 1"
      using assms(2) by (simp add: distinct_count_atmost_1)
    ultimately have "count (mset ws) a = 1" by linarith
    then show ?thesis using True by simp
  next
    case False
    then show ?thesis by (simp add: count_eq_zero_iff)
  qed
  then show ?thesis by (simp add: distinct_count_atmost_1)
qed


lemma pool_sample_mset:
  "k \<le> length pool \<Longrightarrow> mset (fst (pool_sample rs pool k)) \<subseteq># mset pool"
proof (induction k arbitrary: rs pool)
  case 0
  then show ?case by simp
next
  case (Suc k)
  obtain r rs1 where d: "draw rs = (r, rs1)" by (cases "draw rs")
  let ?j = "r mod length pool"
  let ?pool' = "butlast (pool[?j := last pool])"
  obtain ws rs2 where p: "pool_sample rs1 ?pool' k = (ws, rs2)" by (cases "pool_sample rs1 ?pool' k")
  from Suc.prems have "0 < length pool" by (cases pool) auto
  then have j: "?j < length pool" by simp
  have "k \<le> length ?pool'" using Suc.prems by simp
  from Suc.IH[OF this, of rs1] p have "mset ws \<subseteq># mset pool - {#pool ! ?j#}"
    by (simp add: mset_swap_out[OF j])
  moreover have "pool ! ?j \<in># mset pool" using j by simp
  ultimately have "add_mset (pool ! ?j) (mset ws) \<subseteq># mset pool"
    by (simp add: insert_subset_eq_iff)
  then show ?case using d p by simp
qed

lemma pick_winners_ok:
  "\<exists>ws rs'. pick_winners n us rs = Inr (ws, rs') \<and>
     length ws = nat (min n (int (length us))) \<and> mset ws \<subseteq># mset us"
proof -
  define k where "k = min n (int (length us))"
  have pw: "pick_winners n us rs = (if 0 < k then random_sample rs us k else Inr ([], rs))"
    by (simp only: pick_winners_def k_def Let_def)
  have "\<exists>ws rs'. pick_winners n us rs = Inr (ws, rs') \<and> length ws = nat k \<and> mset ws \<subseteq># mset us"
  proof (cases "0 < k")
    case False
    then have "pick_winners n us rs = Inr ([], rs)" and "nat k = 0" using pw by simp_all
    then show ?thesis by simp
  next
    case True
    have kn: "k \<le> int (length us)" unfolding k_def by simp
    then have le: "nat k \<le> length us" by simp
    have "pick_winners n us rs = Inr (pool_sample rs us (nat k))"
      using True pw kn by (simp add: random_sample_def)
    moreover obtain ws rs' where p: "pool_sample rs us (nat k) = (ws, rs')"
      by (cases "pool_sample rs us (nat k)")
    moreover have "length ws = nat k" using pool_sample_length[of rs us "nat k"] p by simp
    moreover have "mset ws \<subseteq># mset us" using pool_sample_mset[OF le, of rs] p by simp
    ultimately show ?thesis by simp
  qed
  then show ?thesis by (simp only: k_def)
qed

lemma mset_filter_sub: "mset (filter P xs) \<subseteq># mset xs"
  by simp

section \<open>Properties of the store\<close>

lemma list_all_update:
  "list_all P al \<Longrightarrow> P (k, v) \<Longrightarrow> list_all P (AList.update k v al)"
  by (induction al) auto

lemma list_all_delete: "list_all P al \<Longrightarrow> list_all P (AList.delete k al)"
  by (induction al) (auto simp: AList.delete_eq)

lemma list_all_lookup: "list_all P al \<Longrightarrow> map_of al k = Some v \<Longrightarrow> P (k, v)"
  by (auto simp: list_all_iff dest: map_of_SomeD)

lemma end_giveaway_store:
  "active_giveaways (snd (end_giveaway w gid s)) =
     (case map_of (active_giveaways s) gid of
        None \<Rightarrow> active_giveaways s
      | Some g \<Rightarrow> AList.update gid (g\<lparr>ended := True\<rparr>) (active_giveaways s))"
  by (simp add: end_giveaway_def Let_def split: option.splits sum.splits prod.splits)

lemma end_giveaway_list_all:
  assumes "list_all P (active_giveaways s)"
    and "\<And>k g. P (k, g) \<Longrightarrow> P (k, g\<lparr>ended := True\<rparr>)"
  shows "list_all P (active_giveaways (snd (end_giveaway w gid s)))"
proof (cases "map_of (active_giveaways s) gid")
  case None
  then show ?thesis using assms(1) by (simp add: end_giveaway_store)
next
  case (Some g)
  then have "P (gid, g)" using assms(1) by (rule list_all_lookup[rotated])
  then have "P (gid, g\<lparr>ended := True\<rparr>)" by (rule assms(2))
  then show ?thesis using Some assms(1) by (simp add: end_giveaway_store list_all_update)
qed

lemma check_loop_list_all:
  assumes "\<And>k g. P (k, g) \<Longrightarrow> P (k, g\<lparr>ended := True\<rparr>)"
  shows "list_all P (active_giveaways s) \<Longrightarrow>
         list_all P (active_giveaways (snd (check_loop w now ids s)))"
proof (induction ids arbitrary: s)
  case Nil
  then show ?case by simp
next
  case (Cons gid ids)
  show ?case
  proof (cases "map_of (active_giveaways s) gid")
    case None
    then show ?thesis using Cons.prems by simp
  next
    case (Some g)
    show ?thesis
    proof (cases "end_time g \<le> now")
      case False
      then show ?thesis using Some Cons.IH[OF Cons.prems] by simp
    next
      case True
      obtain evs x s1 where e: "end_giveaway w gid s = ((evs, x), s1)"
        by (metis prod.exhaust)
      have "list_all P (active_giveaways s1)"
        using end_giveaway_list_all[OF Cons.prems assms, of w gid] e by simp
      from Cons.IH[OF this] show ?thesis
        using Some True e by (auto split: prod.splits)
    qed
  qed
qed

lemma check_giveaways_list_all:
  assumes "\<And>k g. P (k, g) \<Longrightarrow> P (k, g\<lparr>ended := True\<rparr>)"
    and "list_all P (active_giveaways s)"
  shows "list_all P (active_giveaways (snd (check_giveaways w now s)))"
  unfolding check_giveaways_def using assms by (rule check_loop_list_all)

lemma end_giveaway_command_store:
  "active_giveaways (snd (end_giveaway_command w c mid s)) =
   active_giveaways (snd (end_giveaway w mid s))"
proof (cases "map_of (active_giveaways s) mid")
  case None
  then show ?thesis by (simp add: end_giveaway_command_def end_giveaway_def)
next
  case (Some g)
  then show ?thesis
    by (auto simp: end_giveaway_command_def split: prod.splits option.splits)
qed

lemma reroll_giveaway_store:
  "active_giveaways (snd (reroll_giveaway w c mid n s)) = active_giveaways s"
  by (simp add: reroll_giveaway_def split: option.splits sum.splits prod.splits)

lemma list_giveaways_state: "snd (list_giveaways w c s) = s"
  by (simp add: list_giveaways_def Let_def)

lemma cancel_body_store:
  "active_giveaways (snd (cancel_body w c mid g s)) = active_giveaways s \<or>
   active_giveaways (snd (cancel_body w c mid g s)) =
     AList.update mid (g\<lparr>ended := True, cancelled := True\<rparr>) (active_giveaways s)"
  by (simp add: cancel_body_def split: option.splits sum.splits prod.splits)

lemma create_giveaway_success:
  assumes "parse_time time_str = Inr (Some seconds)" and "0 < seconds"
    and "py_int w winners_str = Some n" and "0 < n" and "n \<le> 20"
    and "add_seconds now seconds = Inr end_t" and "timestamp w end_t = Inr ts"
    and "send w (ctx_channel c) = Inr mid" and "add_reaction w mid = None"
  shows "create_giveaway w now c time_str winners_str p s =
           (([Sent (ctx_channel c) (GiveawayEmbed p n (ctx_author c) end_t ts), Reacted mid,
              Sent (ctx_channel c) (GiveawayCreated mid)], None),
            s\<lparr>active_giveaways :=
                AList.update mid
                  \<lparr>channel_id = ctx_channel c, message_id = mid, host_id = ctx_author c,
                   prize = p, winner_count = n, end_time = end_t,
                   ended = False, cancelled = False\<rparr>
                  (active_giveaways s)\<rparr>)"
  using assms by (simp add: create_giveaway_def say_def)

lemma create_giveaway_list_all:
  assumes "list_all P (active_giveaways s)"
    and "\<And>k g. message_id g = k \<Longrightarrow> \<not> ended g \<Longrightarrow> \<not> cancelled g \<Longrightarrow> P (k, g)"
  shows "list_all P (active_giveaways (snd (create_giveaway w now c time_str winners_str p s)))"
proof -
  have new: "P (mid, \<lparr>channel_id = ch, message_id = mid, host_id = h, prize = p, winner_count = n,
                      end_time = e, ended = False, cancelled = False\<rparr>)" for mid ch h n e
    by (rule assms(2)) simp_all
  show ?thesis
    using assms(1) new
    by (simp add: create_giveaway_def list_all_update split: sum.splits option.splits prod.splits)
qed

lemma cancel_giveaway_list_all:
  assumes "list_all P (active_giveaways s)"
    and "\<And>k g. P (k, g) \<Longrightarrow> P (k, g\<lparr>ended := True, cancelled := True\<rparr>)"
  shows "list_all P (active_giveaways (snd (cancel_giveaway w c mid s)))"
proof (cases "map_of (active_giveaways s) mid")
  case None
  then show ?thesis using assms(1) by (simp add: cancel_giveaway_def)
next
  case (Some g)
  then have "P (mid, g)" using assms(1) by (rule list_all_lookup[rotated])
  then have "P (mid, g\<lparr>ended := True, cancelled := True\<rparr>)" by (rule assms(2))
  then have "list_all P (AList.update mid (g\<lparr>ended := True, cancelled := True\<rparr>) (active_giveaways s))"
    using assms(1) by (simp add: list_all_update)
  then have b: "list_all P (active_giveaways (snd (cancel_body w c mid g s)))"
    using cancel_body_store[of w c mid g s] assms(1) by auto
  obtain evs x s1 where cb: "cancel_body w c mid g s = ((evs, x), s1)"
    by (metis prod.exhaust)
  with b have "list_all P (active_giveaways s1)" by simp
  then show ?thesis using Some cb assms(1)
    by (auto simp: cancel_giveaway_def list_all_delete split: sum.splits)
qed

lemma end_giveaway_command_list_all:
  assumes "list_all P (active_giveaways s)"
    and "\<And>k g. P (k, g) \<Longrightarrow> P (k, g\<lparr>ended := True\<rparr>)"
  shows "list_all P (active_giveaways (snd (end_giveaway_command w c mid s)))"
  using assms by (simp add: end_giveaway_command_store end_giveaway_list_all)

lemma reachable_cancelled_ended: "reachable s \<Longrightarrow> cancelled_ended (active_giveaways s)"
  unfolding cancelled_ended_def
proof (induction rule: reachable.induct)
  case (start rs)
  then show ?case by simp
next
  case (create s w now c time_str winners_str p)
  show ?case by (rule create_giveaway_list_all[OF create.IH]) simp
next
  case (end_command s w c mid)
  show ?case by (rule end_giveaway_command_list_all[OF end_command.IH]) simp
next
  case (reroll s w c mid winners_str)
  then show ?case by (simp add: reroll_giveaway_store)
next
  case (listing s w c)
  then show ?case by (simp add: list_giveaways_state)
next
  case (cancel s w c mid)
  show ?case by (rule cancel_giveaway_list_all[OF cancel.IH]) simp
next
  case (tick s w now)
  show ?case by (rule check_giveaways_list_all[OF _ tick.IH]) simp
qed

lemma reachable_key_consistent: "reachable s \<Longrightarrow> key_consistent (active_giveaways s)"
  unfolding key_consistent_def
proof (induction rule: reachable.induct)
  case (start rs)
  then show ?case by simp
next
  case (create s w now c time_str winners_str p)
  show ?case by (rule create_giveaway_list_all[OF create.IH]) simp
next
  case (end_command s w c mid)
  show ?case by (rule end_giveaway_command_list_all[OF end_command.IH]) simp
next
  case (reroll s w c mid winners_str)
  then show ?case by (simp add: reroll_giveaway_store)
next
  case (listing s w c)
  then show ?case by (simp add: list_giveaways_state)
next
  case (cancel s w c mid)
  show ?case by (rule cancel_giveaway_list_all[OF cancel.IH]) simp
next
  case (tick s w now)
  show ?case by (rule check_giveaways_list_all[OF _ tick.IH]) simp
qed

section \<open>The claims about the store and the commands\<close>

text \<open>
  C10. In every store whose keys are the \<^verbatim>\<open>message_id\<close> of their entries, they still are
  after a create, a settlement, an end command, a reroll, a listing, a cancel, the
  deletion of an entry and a reconciliation tick.
\<close>

theorem key_consistent_preserved:
  assumes "key_consistent (active_giveaways s)"
  shows "key_consistent (active_giveaways (snd (create_giveaway w now c time_str winners_str p s))) \<and>
         key_consistent (active_giveaways (snd (end_giveaway w gid s))) \<and>
         key_consistent (active_giveaways (snd (end_giveaway_command w c mid s))) \<and>
         key_consistent (active_giveaways (snd (reroll_giveaway w c mid n s))) \<and>
         key_consistent (active_giveaways (snd (list_giveaways w c s))) \<and>
         key_consistent (active_giveaways (snd (cancel_giveaway w c mid s))) \<and>
         key_consistent (AList.delete mid (active_giveaways s)) \<and>
         key_consistent (active_giveaways (snd (check_giveaways w now s)))"
proof -
  let ?P = "\<lambda>(k, g). message_id g = k"
  have a: "list_all ?P (active_giveaways s)" using assms by (simp add: key_consistent_def)
  have e: "\<And>k g. ?P (k, g) \<Longrightarrow> ?P (k, g\<lparr>ended := True\<rparr>)" by simp
  have "list_all ?P (active_giveaways (snd (create_giveaway w now c time_str winners_str p s)))"
    by (rule create_giveaway_list_all[OF a]) simp
  moreover have "list_all ?P (active_giveaways (snd (end_giveaway w gid s)))"
    by (rule end_giveaway_list_all[OF a e])
  moreover have "list_all ?P (active_giveaways (snd (end_giveaway_command w c mid s)))"
    by (rule end_giveaway_command_list_all[OF a e])
  moreover have "list_all ?P (active_giveaways (snd (reroll_giveaway w c mid n s)))"
    using a by (simp add: reroll_giveaway_store)
  moreover have "list_all ?P (active_giveaways (snd (list_giveaways w c s)))"
    using a by (simp add: list_giveaways_state)
  moreover have "list_all ?P (active_giveaways (snd (cancel_giveaway w c mid s)))"
    by (rule cancel_giveaway_list_all[OF a]) simp
  moreover have "list_all ?P (AList.delete mid (active_giveaways s))"
    using a by (rule list_all_delete)
  moreover have "list_all ?P (active_giveaways (snd (check_giveaways w now s)))"
    by (rule check_giveaways_list_all[OF e a])
  ultimately show ?thesis by (simp add: key_consistent_def)
qed

theorem key_consistent_preserved_witness:
  "key_consistent (active_giveaways demo_state) \<and>
   key_consistent (active_giveaways (snd (create_giveaway demo_world 63929390460000000 demo_ctx ''60s'' ''2'' ''Nitro'' demo_state))) \<and>
   key_consistent (active_giveaways (snd (end_giveaway demo_world 42 demo_state))) \<and>
   key_consistent (active_giveaways (snd (end_giveaway_command demo_world demo_ctx 42 demo_state))) \<and>
   key_consistent (active_giveaways (snd (reroll_giveaway demo_world demo_ctx 42 None demo_state))) \<and>
   key_consistent (active_giveaways (snd (list_giveaways demo_world demo_ctx demo_state))) \<and>
   key_consistent (active_giveaways (snd (cancel_giveaway demo_world demo_ctx 42 demo_state))) \<and>
   key_consistent (AList.delete 42 (active_giveaways demo_state)) \<and>
   key_consistent (active_giveaways (snd (check_giveaways demo_world 63929390460000000 demo_state)))"
proof -
  have h: "key_consistent (active_giveaways demo_state)"
    by (simp add: key_consistent_def demo_state_def demo_giveaway_def)
  show ?thesis
    using h key_consistent_preserved[OF h, where w = demo_world and c = demo_ctx and gid = 42
        and mid = 42 and n = None and time_str = "''60s''" and winners_str = "''2''"
        and p = "''Nitro''" and now = 63929390460000000]
    by simp
qed

lemma list_giveaways_shown:
  assumes "Sent ch (ActiveList shown) \<in> set (fst (fst (list_giveaways w c s)))"
  shows "shown = filter (\<lambda>(gid, g). \<not> ended g) (active_giveaways s)"
  using assms
  by (auto simp: list_giveaways_def say_def Let_def split: if_splits sum.splits)

text \<open>
  C8. In every store the cog can reach, each giveaway that \<^verbatim>\<open>list_giveaways\<close> shows is
  active: it is an entry of the store that is marked neither ended nor cancelled.
\<close>

theorem list_giveaways_only_active:
  assumes "reachable s"
    and "Sent ch (ActiveList shown) \<in> set (fst (fst (list_giveaways w c s)))"
    and "(k, g) \<in> set shown"
  shows "\<not> ended g \<and> \<not> cancelled g \<and> (k, g) \<in> set (active_giveaways s)"
proof -
  from assms(2) have "shown = filter (\<lambda>(gid, g). \<not> ended g) (active_giveaways s)"
    by (rule list_giveaways_shown)
  with assms(3) have m: "(k, g) \<in> set (active_giveaways s)" and e: "\<not> ended g" by auto
  from assms(1) have "cancelled_ended (active_giveaways s)" by (rule reachable_cancelled_ended)
  with m have "cancelled g \<longrightarrow> ended g" by (auto simp: cancelled_ended_def list_all_iff)
  with m e show ?thesis by simp
qed

lemma demo_history_reachable: "reachable demo_history"
  unfolding demo_history_def by (intro reachable.intros)

lemma demo_history_store:
  "active_giveaways demo_history =
     [(41, \<lparr>channel_id = 7, message_id = 41, host_id = 1, prize = ''Book'', winner_count = 3,
            end_time = 63929397600000000, ended = True, cancelled = True\<rparr>),
      (42, demo_giveaway)]"
  by code_simp

lemma demo_history_rng: "rng demo_history = [0, 1, 0]"
  by code_simp

theorem list_giveaways_only_active_witness:
  "reachable demo_history \<and>
   Sent 7 (ActiveList [(42, demo_giveaway)])
     \<in> set (fst (fst (list_giveaways demo_world demo_ctx demo_history))) \<and>
   (42, demo_giveaway) \<in> set [(42, demo_giveaway)] \<and>
   \<not> ended demo_giveaway \<and> \<not> cancelled demo_giveaway \<and>
   (42, demo_giveaway) \<in> set (active_giveaways demo_history)"
proof -
  have l: "Sent 7 (ActiveList [(42, demo_giveaway)])
     \<in> set (fst (fst (list_giveaways demo_world demo_ctx demo_history)))"
    by (simp add: list_giveaways_def demo_history_store say_def demo_world_def demo_ctx_def
          demo_giveaway_def)
  show ?thesis
    using demo_history_reachable l
      list_giveaways_only_active[OF demo_history_reachable l, of 42 demo_giveaway]
    by simp
qed



lemma reroll_count_reply: "reroll_count w g n = Inl r \<Longrightarrow> r \<noteq> NewWinners p ws"
  by (auto simp: reroll_count_def split: option.splits if_splits)






lemma cancel_giveaway_message_gone:
  "map_of (active_giveaways s) mid = Some g \<Longrightarrow> \<not> ended g \<Longrightarrow>
   get_channel w (channel_id g) \<Longrightarrow>
   fetch_message w (channel_id g) (message_id g) = Inl NotFound \<Longrightarrow>
   send w (ctx_channel c) = Inr i \<Longrightarrow>
   cancel_giveaway w c mid s =
     (([Sent (ctx_channel c) MessageGone], None),
      s\<lparr>active_giveaways := AList.delete mid (active_giveaways s)\<rparr>)"
  by (simp add: cancel_giveaway_def cancel_body_def)










section \<open>The claims about creation and settlement\<close>

lemma create_giveaway_rejects:
  assumes "parse_time time_str = Inr (Some seconds)" and "py_int w winners_str = Some n"
    and "seconds \<le> 0 \<or> n < 1 \<or> 20 < n"
  shows "\<exists>r. invalid_argument r \<and>
           create_giveaway w now c time_str winners_str p s = (say w (ctx_channel c) r, s)"
proof (cases "seconds \<le> 0")
  case True
  then have "create_giveaway w now c time_str winners_str p s =
               (say w (ctx_channel c) TimeNotPositive, s)"
    using assms(1) by (simp add: create_giveaway_def)
  then show ?thesis by (auto simp: invalid_argument_def)
next
  case False
  show ?thesis
  proof (cases "n \<le> 0")
    case True
    then have "create_giveaway w now c time_str winners_str p s =
                 (say w (ctx_channel c) WinnersNotPositive, s)"
      using assms(1,2) False by (simp add: create_giveaway_def)
    then show ?thesis by (auto simp: invalid_argument_def)
  next
    case n: False
    with False assms(3) have "20 < n" by auto
    then have "create_giveaway w now c time_str winners_str p s =
                 (say w (ctx_channel c) WinnersTooMany, s)"
      using assms(1,2) False n by (simp add: create_giveaway_def)
    then show ?thesis by (auto simp: invalid_argument_def)
  qed
qed

lemma create_giveaway_malformed:
  "parse_time time_str = Inl ValueError \<Longrightarrow>
     create_giveaway w now c time_str winners_str p s =
       (say w (ctx_channel c) InvalidTimeFormat, s)"
  "parse_time time_str = Inr (Some seconds) \<Longrightarrow> 0 < seconds \<Longrightarrow> py_int w winners_str = None \<Longrightarrow>
     create_giveaway w now c time_str winners_str p s =
       (say w (ctx_channel c) WinnersNotNumber, s)"
  by (simp_all add: create_giveaway_def)

lemma add_seconds_value: "add_seconds now seconds = Inr end_t \<Longrightarrow> end_t = now + seconds * 1000000"
  by (auto simp: add_seconds_def split: if_splits)

lemma create_giveaway_changes:
  assumes "active_giveaways (snd (create_giveaway w now c time_str winners_str p s)) \<noteq>
           active_giveaways s"
  shows "\<exists>seconds n. parse_time time_str = Inr (Some seconds) \<and> 0 < seconds \<and>
           py_int w winners_str = Some n \<and> 1 \<le> n \<and> n \<le> 20"
  using assms
  by (auto simp: create_giveaway_def split: sum.splits option.splits if_splits prod.splits)

lemma create_giveaway_created:
  assumes "parse_time time_str = Inr (Some seconds)" and "py_int w winners_str = Some n"
    and "Sent (ctx_channel c) (GiveawayCreated mid)
           \<in> set (fst (fst (create_giveaway w now c time_str winners_str p s)))"
  shows "0 < seconds \<and> 1 \<le> n \<and> n \<le> 20 \<and>
         snd (create_giveaway w now c time_str winners_str p s) =
           s\<lparr>active_giveaways :=
               AList.update mid
                 \<lparr>channel_id = ctx_channel c, message_id = mid, host_id = ctx_author c,
                  prize = p, winner_count = n, end_time = now + seconds * 1000000,
                  ended = False, cancelled = False\<rparr>
                 (active_giveaways s)\<rparr>"
proof -
  have pos: "0 < seconds"
    using assms by (auto simp: create_giveaway_def say_def split: if_splits sum.splits)
  have n1: "0 < n"
    using assms pos by (auto simp: create_giveaway_def say_def split: if_splits sum.splits)
  have n2: "n \<le> 20"
    using assms pos n1 by (auto simp: create_giveaway_def say_def split: if_splits sum.splits)
  obtain end_t where e: "add_seconds now seconds = Inr end_t"
    using assms pos n1 n2 by (cases "add_seconds now seconds") (auto simp: create_giveaway_def)
  obtain ts where t: "timestamp w end_t = Inr ts"
    using assms pos n1 n2 e by (cases "timestamp w end_t") (auto simp: create_giveaway_def)
  obtain m where m: "send w (ctx_channel c) = Inr m"
    using assms pos n1 n2 e t by (cases "send w (ctx_channel c)") (auto simp: create_giveaway_def)
  have r: "add_reaction w m = None"
    using assms pos n1 n2 e t m
    by (cases "add_reaction w m") (auto simp: create_giveaway_def)
  note ok = create_giveaway_success[OF assms(1) pos assms(2) n1 n2 e t m r, of p s]
  with assms(3) have "m = mid" by simp
  with ok add_seconds_value[OF e] pos n1 n2 show ?thesis by simp
qed

text \<open>
  C6. With a duration and a winner count that parse: when the duration is not positive or
  the count is outside 1..20, \<^verbatim>\<open>create_giveaway\<close> answers with a rejection of the argument
  and returns the state it was given, so the store has the size it had. A create has
  succeeded when it has confirmed the giveaway under the id of its message; then the
  arguments were in range and the store holds under that id a giveaway that is neither
  ended nor cancelled and whose end time is the current time plus the duration. And it
  does succeed when the arguments are in range and the end time has a timestamp, the
  message is sent and the reaction added.
\<close>

theorem create_giveaway_contract:
  assumes "parse_time time_str = Inr (Some seconds)" and "py_int w winners_str = Some n"
  shows "(seconds \<le> 0 \<or> n < 1 \<or> 20 < n \<longrightarrow>
            (\<exists>r. invalid_argument r \<and>
               create_giveaway w now c time_str winners_str p s = (say w (ctx_channel c) r, s)) \<and>
            length (active_giveaways (snd (create_giveaway w now c time_str winners_str p s))) =
              length (active_giveaways s)) \<and>
         (Sent (ctx_channel c) (GiveawayCreated mid)
            \<in> set (fst (fst (create_giveaway w now c time_str winners_str p s))) \<longrightarrow>
            0 < seconds \<and> 1 \<le> n \<and> n \<le> 20 \<and>
            map_of (active_giveaways (snd (create_giveaway w now c time_str winners_str p s))) mid =
              Some \<lparr>channel_id = ctx_channel c, message_id = mid, host_id = ctx_author c,
                    prize = p, winner_count = n, end_time = now + seconds * 1000000,
                    ended = False, cancelled = False\<rparr>) \<and>
         (0 < seconds \<and> 1 \<le> n \<and> n \<le> 20 \<and> add_seconds now seconds = Inr end_t \<and>
          timestamp w end_t = Inr ts \<and>
          send w (ctx_channel c) = Inr mid \<and> add_reaction w mid = None \<longrightarrow>
            end_t = now + seconds * 1000000 \<and>
            Sent (ctx_channel c) (GiveawayCreated mid)
              \<in> set (fst (fst (create_giveaway w now c time_str winners_str p s))))"
proof (intro conjI impI)
  assume bad: "seconds \<le> 0 \<or> n < 1 \<or> 20 < n"
  from create_giveaway_rejects[OF assms bad, of now c p s]
  show r: "\<exists>r. invalid_argument r \<and>
               create_giveaway w now c time_str winners_str p s = (say w (ctx_channel c) r, s)" .
  then show "length (active_giveaways (snd (create_giveaway w now c time_str winners_str p s))) =
              length (active_giveaways s)" by auto
next
  assume c: "Sent (ctx_channel c) (GiveawayCreated mid)
            \<in> set (fst (fst (create_giveaway w now c time_str winners_str p s)))"
  note k = create_giveaway_created[OF assms c]
  from k show "0 < seconds" and "1 \<le> n" and "n \<le> 20" by simp_all
  from k show "map_of (active_giveaways (snd (create_giveaway w now c time_str winners_str p s))) mid =
              Some \<lparr>channel_id = ctx_channel c, message_id = mid, host_id = ctx_author c,
                    prize = p, winner_count = n, end_time = now + seconds * 1000000,
                    ended = False, cancelled = False\<rparr>"
    by (simp add: AList.update_conv')
next
  assume ok: "0 < seconds \<and> 1 \<le> n \<and> n \<le> 20 \<and> add_seconds now seconds = Inr end_t \<and>
          timestamp w end_t = Inr ts \<and>
          send w (ctx_channel c) = Inr mid \<and> add_reaction w mid = None"
  then show "end_t = now + seconds * 1000000" by (simp add: add_seconds_value)
  from ok have "0 < n" by simp
  with ok assms
  have "create_giveaway w now c time_str winners_str p s =
           (([Sent (ctx_channel c) (GiveawayEmbed p n (ctx_author c) end_t ts), Reacted mid,
              Sent (ctx_channel c) (GiveawayCreated mid)], None),
            s\<lparr>active_giveaways :=
                AList.update mid
                  \<lparr>channel_id = ctx_channel c, message_id = mid, host_id = ctx_author c,
                   prize = p, winner_count = n, end_time = end_t,
                   ended = False, cancelled = False\<rparr>
                  (active_giveaways s)\<rparr>)"
    by (intro create_giveaway_success[where seconds = seconds and n = n]) simp_all
  then show "Sent (ctx_channel c) (GiveawayCreated mid)
              \<in> set (fst (fst (create_giveaway w now c time_str winners_str p s)))"
    by simp
qed

lemma demo_parse: "parse_time ''60s'' = Inr (Some 60)" "parse_time ''0s'' = Inr (Some 0)"
  by (simp_all add: parse_time_def re_match_def is_digit_def is_unit_char_def
        lower_char_def int_of_digits_def)

lemma demo_int: "py_int demo_world ''0'' = Some 0" "py_int demo_world ''21'' = Some 21"
  "py_int demo_world ''3'' = Some 3"
  by (simp_all add: demo_world_def dec_int_def is_digit_def int_of_digits_def)

theorem create_giveaway_contract_witness:
  "parse_time ''60s'' = Inr (Some 60) \<and> py_int demo_world ''0'' = Some 0 \<and>
   py_int demo_world ''21'' = Some 21 \<and> py_int demo_world ''3'' = Some 3 \<and>
   parse_time ''0s'' = Inr (Some 0) \<and>
   create_giveaway demo_world 63929390400000000 demo_ctx ''60s'' ''0'' ''Nitro'' demo_state =
     (([Sent 7 WinnersNotPositive], None), demo_state) \<and>
   create_giveaway demo_world 63929390400000000 demo_ctx ''60s'' ''21'' ''Nitro'' demo_state =
     (([Sent 7 WinnersTooMany], None), demo_state) \<and>
   create_giveaway demo_world 63929390400000000 demo_ctx ''0s'' ''3'' ''Nitro'' demo_state =
     (([Sent 7 TimeNotPositive], None), demo_state) \<and>
   add_seconds 63929390400000000 60 = Inr 63929390460000000 \<and>
   timestamp demo_world 63929390460000000 = Inr 1793793660 \<and>
   send demo_world (ctx_channel demo_ctx) = Inr 42 \<and>
   add_reaction demo_world 42 = None \<and>
   Sent (ctx_channel demo_ctx) (GiveawayCreated 42)
     \<in> set (fst (fst (create_giveaway demo_world 63929390400000000 demo_ctx ''60s'' ''3'' ''Nitro''
                        \<lparr>active_giveaways = [], rng = []\<rparr>))) \<and>
   map_of (active_giveaways
     (snd (create_giveaway demo_world 63929390400000000 demo_ctx ''60s'' ''3'' ''Nitro''
        \<lparr>active_giveaways = [], rng = []\<rparr>))) 42 =
     Some \<lparr>channel_id = 7, message_id = 42, host_id = 1, prize = ''Nitro'', winner_count = 3,
           end_time = 63929390460000000, ended = False, cancelled = False\<rparr>"
proof -
  have a: "add_seconds 63929390400000000 60 = Inr 63929390460000000"
    by (simp add: add_seconds_def datetime_max_def)
  have ts: "timestamp demo_world 63929390460000000 = Inr 1793793660"
    by (simp add: demo_world_def utc_timestamp_def)
  have w: "send demo_world (ctx_channel demo_ctx) = Inr 42" "add_reaction demo_world 42 = None"
    "ctx_channel demo_ctx = 7" "ctx_author demo_ctx = 1" "send demo_world 7 = Inr 42"
    by (simp_all add: demo_world_def demo_ctx_def)
  have e1: "create_giveaway demo_world 63929390400000000 demo_ctx ''60s'' ''0'' ''Nitro'' demo_state =
     (([Sent 7 WinnersNotPositive], None), demo_state)"
    by (simp add: create_giveaway_def demo_parse demo_int say_def w)
  have e2: "create_giveaway demo_world 63929390400000000 demo_ctx ''60s'' ''21'' ''Nitro'' demo_state =
     (([Sent 7 WinnersTooMany], None), demo_state)"
    by (simp add: create_giveaway_def demo_parse demo_int say_def w)
  have e3: "create_giveaway demo_world 63929390400000000 demo_ctx ''0s'' ''3'' ''Nitro'' demo_state =
     (([Sent 7 TimeNotPositive], None), demo_state)"
    by (simp add: create_giveaway_def demo_parse demo_int say_def w)
  note t = create_giveaway_contract[OF demo_parse(1) demo_int(3), where now = 63929390400000000
      and end_t = 63929390460000000 and ts = 1793793660 and c = demo_ctx and mid = 42
      and p = "''Nitro''" and s = "\<lparr>active_giveaways = [], rng = []\<rparr>"]
  have c: "Sent (ctx_channel demo_ctx) (GiveawayCreated 42)
     \<in> set (fst (fst (create_giveaway demo_world 63929390400000000 demo_ctx ''60s'' ''3'' ''Nitro''
                        \<lparr>active_giveaways = [], rng = []\<rparr>)))"
    using t a ts w(1,2) by simp
  have r: "map_of (active_giveaways
     (snd (create_giveaway demo_world 63929390400000000 demo_ctx ''60s'' ''3'' ''Nitro''
        \<lparr>active_giveaways = [], rng = []\<rparr>))) 42 =
     Some \<lparr>channel_id = 7, message_id = 42, host_id = 1, prize = ''Nitro'', winner_count = 3,
           end_time = 63929390460000000, ended = False, cancelled = False\<rparr>"
    using t c w(3,4) by simp
  from demo_parse demo_int a ts w(1,2) e1 e2 e3 c r show ?thesis by simp
qed

lemma end_giveaway_marks:
  "map_of (active_giveaways s) gid = Some g \<Longrightarrow>
   map_of (active_giveaways (snd (end_giveaway w gid s))) gid = Some (g\<lparr>ended := True\<rparr>)"
  by (simp add: end_giveaway_store AList.update_conv')

lemma select_winners_entrants:
  "entrants m = Inr us \<Longrightarrow> select_winners g m rs = pick_winners (winner_count g) us rs"
  by (auto simp: entrants_def select_winners_def pick_winners_def split: option.splits)

lemma end_giveaway_announces:
  assumes "map_of (active_giveaways s) gid = Some g"
    and "get_channel w (channel_id g)"
    and "fetch_message w (channel_id g) (message_id g) = Inr m"
    and "select_winners (g\<lparr>ended := True\<rparr>) m (rng s) = Inr (ws, rs)"
    and "fetch_user w (host_id g) = None" and "edit w (message_id g) = None"
    and "send w (channel_id g) = Inr i"
  shows "fst (end_giveaway w gid s) =
           ([EditedEnded (message_id g) ws,
             Sent (channel_id g)
               (if ws \<noteq> [] then Congratulations ws (prize g) else NoWinners (prize g))], None)"
  using assms by (simp add: end_giveaway_def announce_def say_def)

text \<open>
  C4. Settling a stored giveaway marks it ended, whatever the platform answers and however
  many entrants there are. When the channel and the message are found, the entrants are
  pairwise different and the calls that announce the result succeed, the winners
  announced are \<open>min winner_count |entrants|\<close> many, pairwise different and all among the
  entrants; with no entrant there is no winner.
\<close>

theorem end_giveaway_settlement:
  assumes "map_of (active_giveaways s) gid = Some g"
  shows "map_of (active_giveaways (snd (end_giveaway w gid s))) gid = Some (g\<lparr>ended := True\<rparr>) \<and>
         (get_channel w (channel_id g) \<and>
          fetch_message w (channel_id g) (message_id g) = Inr m \<and>
          entrants m = Inr us \<and> distinct us \<and>
          fetch_user w (host_id g) = None \<and> edit w (message_id g) = None \<and>
          send w (channel_id g) = Inr i \<longrightarrow>
            (\<exists>ws. fst (end_giveaway w gid s) =
                    ([EditedEnded (message_id g) ws,
                      Sent (channel_id g)
                        (if ws \<noteq> [] then Congratulations ws (prize g)
                         else NoWinners (prize g))], None) \<and>
                  length ws = nat (min (winner_count g) (int (length us))) \<and>
                  distinct ws \<and> set ws \<subseteq> set us))"
proof (intro conjI impI)
  show "map_of (active_giveaways (snd (end_giveaway w gid s))) gid = Some (g\<lparr>ended := True\<rparr>)"
    using assms by (rule end_giveaway_marks)
next
  assume h: "get_channel w (channel_id g) \<and>
          fetch_message w (channel_id g) (message_id g) = Inr m \<and>
          entrants m = Inr us \<and> distinct us \<and>
          fetch_user w (host_id g) = None \<and> edit w (message_id g) = None \<and>
          send w (channel_id g) = Inr i"
  from pick_winners_ok[of "winner_count g" us "rng s"]
  obtain ws rs where p: "pick_winners (winner_count g) us (rng s) = Inr (ws, rs)"
    and l: "length ws = nat (min (winner_count g) (int (length us)))"
    and m: "mset ws \<subseteq># mset us" by blast
  from h have "select_winners (g\<lparr>ended := True\<rparr>) m (rng s) = Inr (ws, rs)"
    using p by (simp add: select_winners_entrants)
  with assms h have "fst (end_giveaway w gid s) =
           ([EditedEnded (message_id g) ws,
             Sent (channel_id g)
               (if ws \<noteq> [] then Congratulations ws (prize g) else NoWinners (prize g))], None)"
    by (intro end_giveaway_announces[where m = m and rs = rs and i = i]) simp_all
  moreover have "distinct ws" using m h by (auto intro: sub_mset_distinct)
  moreover have "set ws \<subseteq> set us" using m by (metis set_mset_mono set_mset_mset)
  ultimately show "\<exists>ws. fst (end_giveaway w gid s) =
                    ([EditedEnded (message_id g) ws,
                      Sent (channel_id g)
                        (if ws \<noteq> [] then Congratulations ws (prize g)
                         else NoWinners (prize g))], None) \<and>
                  length ws = nat (min (winner_count g) (int (length us))) \<and>
                  distinct ws \<and> set ws \<subseteq> set us"
    using l by blast
qed

lemma demo_entrants: "entrants demo_message = Inr [alice, bob]"
  by (simp add: entrants_def find_reaction_def demo_message_def party_def collect_users_def
        alice_def bob_def robot_def)

lemma demo_end:
  "end_giveaway demo_world 42 demo_state =
     (([EditedEnded 42 [alice], Sent 7 (Congratulations [alice] ''Nitro'')], None),
      \<lparr>active_giveaways = [(42, demo_giveaway\<lparr>ended := True\<rparr>)], rng = []\<rparr>)"
  by (simp add: end_giveaway_def demo_world_def demo_state_def demo_giveaway_def
        select_winners_def find_reaction_def demo_message_def party_def collect_users_def
        pick_winners_def random_sample_def announce_def say_def alice_def bob_def robot_def)

theorem end_giveaway_settlement_witness:
  "map_of (active_giveaways demo_state) 42 = Some demo_giveaway \<and>
   get_channel demo_world (channel_id demo_giveaway) \<and>
   fetch_message demo_world (channel_id demo_giveaway) (message_id demo_giveaway) =
     Inr demo_message \<and>
   entrants demo_message = Inr [alice, bob] \<and> distinct [alice, bob] \<and>
   fetch_user demo_world (host_id demo_giveaway) = None \<and>
   edit demo_world (message_id demo_giveaway) = None \<and>
   send demo_world (channel_id demo_giveaway) = Inr 42 \<and>
   map_of (active_giveaways (snd (end_giveaway demo_world 42 demo_state))) 42 =
     Some (demo_giveaway\<lparr>ended := True\<rparr>) \<and>
   fst (end_giveaway demo_world 42 demo_state) =
     ([EditedEnded 42 [alice], Sent 7 (Congratulations [alice] ''Nitro'')], None) \<and>
   length [alice] = nat (min (winner_count demo_giveaway) (int (length [alice, bob])))"
proof -
  have a: "map_of (active_giveaways demo_state) 42 = Some demo_giveaway"
    by (simp add: demo_state_def)
  have h: "get_channel demo_world (channel_id demo_giveaway)"
    "fetch_message demo_world (channel_id demo_giveaway) (message_id demo_giveaway) =
       Inr demo_message"
    "distinct [alice, bob]"
    "fetch_user demo_world (host_id demo_giveaway) = None"
    "edit demo_world (message_id demo_giveaway) = None"
    "send demo_world (channel_id demo_giveaway) = Inr 42"
    by (simp_all add: demo_world_def demo_giveaway_def alice_def bob_def)
  note t = end_giveaway_settlement[OF a, where w = demo_world and m = demo_message
      and us = "[alice, bob]" and i = 42]
  have m: "map_of (active_giveaways (snd (end_giveaway demo_world 42 demo_state))) 42 =
     Some (demo_giveaway\<lparr>ended := True\<rparr>)"
    using t by blast
  have l: "length [alice] = nat (min (winner_count demo_giveaway) (int (length [alice, bob])))"
    by (simp add: demo_giveaway_def)
  from a h demo_entrants m demo_end l show ?thesis by simp
qed

lemma demo_end_other:
  "end_giveaway demo_world 42 (demo_state\<lparr>rng := [3]\<rparr>) =
     (([EditedEnded 42 [bob], Sent 7 (Congratulations [bob] ''Nitro'')], None),
      \<lparr>active_giveaways = [(42, demo_giveaway\<lparr>ended := True\<rparr>)], rng = []\<rparr>)"
  by code_simp

lemma demo_reroll:
  "reroll_giveaway demo_world demo_ctx 42 None
     \<lparr>active_giveaways = [(42, demo_giveaway\<lparr>ended := True\<rparr>)], rng = [3]\<rparr> =
     (([Sent 7 (NewWinners ''Nitro'' [bob])], None),
      \<lparr>active_giveaways = [(42, demo_giveaway\<lparr>ended := True\<rparr>)], rng = []\<rparr>)"
  by code_simp

text \<open>
  C5, as stated: the stored giveaway records the winners of its settlement and of every
  reroll. It does not. Two settlements of the same giveaway that draw different winners
  leave the same store, and a reroll that announces a winner leaves the store as it was:
  an entry has no field for the winners.
\<close>

theorem winners_not_stored_counterexample:
  "fst (end_giveaway demo_world 42 demo_state) =
     ([EditedEnded 42 [alice], Sent 7 (Congratulations [alice] ''Nitro'')], None) \<and>
   fst (end_giveaway demo_world 42 (demo_state\<lparr>rng := [3]\<rparr>)) =
     ([EditedEnded 42 [bob], Sent 7 (Congratulations [bob] ''Nitro'')], None) \<and>
   [alice] \<noteq> [bob] \<and>
   active_giveaways (snd (end_giveaway demo_world 42 demo_state)) =
     active_giveaways (snd (end_giveaway demo_world 42 (demo_state\<lparr>rng := [3]\<rparr>))) \<and>
   fst (reroll_giveaway demo_world demo_ctx 42 None
     \<lparr>active_giveaways = [(42, demo_giveaway\<lparr>ended := True\<rparr>)], rng = [3]\<rparr>) =
     ([Sent 7 (NewWinners ''Nitro'' [bob])], None) \<and>
   active_giveaways (snd (reroll_giveaway demo_world demo_ctx 42 None
     \<lparr>active_giveaways = [(42, demo_giveaway\<lparr>ended := True\<rparr>)], rng = [3]\<rparr>)) =
     [(42, demo_giveaway\<lparr>ended := True\<rparr>)]"
  by (simp add: demo_end demo_end_other demo_reroll alice_def bob_def)

text \<open>
  C5, amended: a settlement writes nothing into the store but the \<^verbatim>\<open>ended\<close> mark of the
  giveaway it settles, and a reroll writes nothing into the store at all; the winners
  are only announced.
\<close>

theorem winners_only_announced:
  "active_giveaways (snd (end_giveaway w gid s)) =
     (case map_of (active_giveaways s) gid of
        None \<Rightarrow> active_giveaways s
      | Some g \<Rightarrow> AList.update gid (g\<lparr>ended := True\<rparr>) (active_giveaways s)) \<and>
   active_giveaways (snd (reroll_giveaway w c mid n s)) = active_giveaways s"
  by (simp add: end_giveaway_store reroll_giveaway_store)

theorem winners_only_announced_witness:
  "active_giveaways (snd (end_giveaway demo_world 42 demo_state)) =
     [(42, demo_giveaway\<lparr>ended := True\<rparr>)] \<and>
   active_giveaways (snd (reroll_giveaway demo_world demo_ctx 42 None
     \<lparr>active_giveaways = [(42, demo_giveaway\<lparr>ended := True\<rparr>)], rng = [3]\<rparr>)) =
     [(42, demo_giveaway\<lparr>ended := True\<rparr>)]"
  using winners_only_announced[where w = demo_world and gid = 42 and s = demo_state]
    winners_only_announced[where w = demo_world and c = demo_ctx and mid = 42 and n = None
      and s = "\<lparr>active_giveaways = [(42, demo_giveaway\<lparr>ended := True\<rparr>)], rng = [3]\<rparr>"]
  by (simp add: demo_state_def)

text \<open>
  C1. No reconciliation tick settles a giveaway that is ended or cancelled. The code does:
  the loop of \<^verbatim>\<open>check_giveaways\<close> tests the end time only, and \<^verbatim>\<open>end_giveaway\<close> does not
  look at \<^verbatim>\<open>ended\<close>. In the history below giveaway 41 is cancelled; the tick at its end time
  draws two winners for it and congratulates them, and the next tick settles both
  giveaways again.
\<close>

theorem tick_settles_cancelled_giveaway:
  "map_of (active_giveaways demo_history) 41 =
     Some \<lparr>channel_id = 7, message_id = 41, host_id = 1, prize = ''Book'', winner_count = 3,
           end_time = 63929397600000000, ended = True, cancelled = True\<rparr> \<and>
   fst (check_giveaways demo_world 63929397600000000 demo_history) =
     ([EditedEnded 41 [alice, bob], Sent 7 (Congratulations [alice, bob] ''Book''),
       EditedEnded 42 [alice], Sent 7 (Congratulations [alice] ''Nitro'')], None) \<and>
   fst (check_giveaways demo_world 63929397610000000
          (snd (check_giveaways demo_world 63929397600000000 demo_history))) =
     ([EditedEnded 41 [alice, bob], Sent 7 (Congratulations [alice, bob] ''Book''),
       EditedEnded 42 [alice], Sent 7 (Congratulations [alice] ''Nitro'')], None)"
  by code_simp

lemma end_giveaway_no_channel:
  "map_of (active_giveaways s) gid = Some g \<Longrightarrow> \<not> get_channel w (channel_id g) \<Longrightarrow>
   end_giveaway w gid s =
     (([LogChannelNotFound (channel_id g) gid], None),
      s\<lparr>active_giveaways := AList.update gid (g\<lparr>ended := True\<rparr>) (active_giveaways s)\<rparr>)"
  by (simp add: end_giveaway_def)

lemma end_giveaway_no_message:
  "map_of (active_giveaways s) gid = Some g \<Longrightarrow> get_channel w (channel_id g) \<Longrightarrow>
   fetch_message w (channel_id g) (message_id g) = Inl NotFound \<Longrightarrow>
   end_giveaway w gid s =
     (([LogMessageNotFound (message_id g) gid], None),
      s\<lparr>active_giveaways := AList.update gid (g\<lparr>ended := True\<rparr>) (active_giveaways s)\<rparr>)"
  by (simp add: end_giveaway_def)

text \<open>
  C2. When the channel or the message of a due giveaway is not found, settlement leaves
  the giveaway active. The code does not: \<^verbatim>\<open>end_giveaway\<close> sets \<^verbatim>\<open>ended\<close> before it looks the
  channel up, so the giveaway is marked ended when settlement gives up, and the listing
  no longer shows it.
\<close>

theorem end_giveaway_marks_before_lookup:
  "\<not> ended demo_giveaway \<and>
   end_giveaway (demo_world\<lparr>get_channel := (\<lambda>ch. False)\<rparr>) 42 demo_state =
     (([LogChannelNotFound 7 42], None),
      \<lparr>active_giveaways = [(42, demo_giveaway\<lparr>ended := True\<rparr>)], rng = [0]\<rparr>) \<and>
   end_giveaway (demo_world\<lparr>fetch_message := (\<lambda>ch mid. Inl NotFound)\<rparr>) 42 demo_state =
     (([LogMessageNotFound 42 42], None),
      \<lparr>active_giveaways = [(42, demo_giveaway\<lparr>ended := True\<rparr>)], rng = [0]\<rparr>) \<and>
   check_giveaways (demo_world\<lparr>get_channel := (\<lambda>ch. False)\<rparr>) 63929390460000000 demo_state =
     (([LogChannelNotFound 7 42], None),
      \<lparr>active_giveaways = [(42, demo_giveaway\<lparr>ended := True\<rparr>)], rng = [0]\<rparr>) \<and>
   fst (list_giveaways demo_world demo_ctx
          (snd (check_giveaways (demo_world\<lparr>get_channel := (\<lambda>ch. False)\<rparr>) 63929390460000000 demo_state))) =
     ([Sent 7 NoActiveGiveaways], None)"
  by code_simp

end
